theory Spec2Isabelle
  imports Complex_Main "HOL-Library.Log_Nat"
begin

section \<open>Python values, exceptions and the metadata record\<close>

text \<open>
  The script \<^verbatim>\<open>scripts/train_metadata_extraction.py\<close> runs \<^verbatim>\<open>ffprobe\<close> on every
  \<^verbatim>\<open>.mp4\<close> entry of a directory, reads the JSON it prints and writes one CSV row per
  entry. The embedding below follows the two functions \<^verbatim>\<open>get_video_metadata\<close> and
  \<^verbatim>\<open>process_videos\<close> statement by statement. Exceptions are values of \<open>pyexc\<close>; a
  computation that may raise has type \<open>pyexc + 'a\<close> (\<open>Inl\<close> is the raise).

  An exception class stands for itself and its subclasses as far as the \<^verbatim>\<open>except\<close>
  clause tells them apart: \<^verbatim>\<open>json.JSONDecodeError\<close> and \<^verbatim>\<open>UnicodeDecodeError\<close> are
  \<open>ValueError\<close>; \<open>FileNotFoundError\<close>, \<open>PermissionError\<close> and \<open>NotADirectoryError\<close> are the
  subclasses of \<open>OSError\<close> that the script can meet, \<open>OSError\<close> any other one.
\<close>

datatype pyexc =
    CalledProcessError | ValueError | KeyError | ZeroDivisionError
  | TypeError | AttributeError | OverflowError
  | FileNotFoundError | PermissionError | NotADirectoryError | OSError

text \<open>
  A Python float is an IEEE double. A finite one is represented by the rational number it
  stands for (\<open>Fin 0\<close> is \<^verbatim>\<open>0.0\<close>); the negative zero, the infinities and NaN are
  constructors of their own.
\<close>

datatype pyfloat = Fin rat | NegZero | PosInf | NegInf | NaN

text \<open>What \<^verbatim>\<open>json.loads\<close> returns: a dict is the list of its items.\<close>

datatype json =
    JNull | JBool bool | JInt int | JFloat pyfloat | JStr string
  | JArr "json list" | JObj "(string \<times> json) list"

text \<open>The values that the script stores in the record and passes to the CSV writer.\<close>

datatype pyval = PNone | PInt int | PFloat pyfloat | PStr string

text \<open>The dict \<^verbatim>\<open>metadata\<close> has six fixed keys.\<close>

record metadata =
  duration :: pyval
  width :: pyval
  height :: pyval
  fps :: pyval
  has_audio :: pyval
  bitrate :: pyval

definition exc_bind :: "pyexc + 'a \<Rightarrow> ('a \<Rightarrow> pyexc + 'b) \<Rightarrow> pyexc + 'b" where
  "exc_bind r f = (case r of Inl e \<Rightarrow> Inl e | Inr x \<Rightarrow> f x)"

section \<open>Strings\<close>

text \<open>
  A string is a list of 8-bit characters: the UTF-8 bytes of the Python text, so a
  character below 128 is an ASCII character and one from 128 on is part of a code point
  beyond ASCII. \<open>lower\<close> changes the ASCII capitals only; whatever Python does to the
  other code points, none of them becomes a dot, \<^verbatim>\<open>m\<close>, \<^verbatim>\<open>p\<close> or \<^verbatim>\<open>4\<close>, which is all that
  the script asks of the result.
\<close>

definition lower_char :: "char \<Rightarrow> char" where
  "lower_char c =
     (case map_of (zip ''ABCDEFGHIJKLMNOPQRSTUVWXYZ'' ''abcdefghijklmnopqrstuvwxyz'') c of
        Some l \<Rightarrow> l | None \<Rightarrow> c)"

definition lower :: "string \<Rightarrow> string" where
  "lower s = map lower_char s"

definition endswith :: "string \<Rightarrow> string \<Rightarrow> bool" where
  "endswith s suffix =
     (length suffix \<le> length s \<and> drop (length s - length suffix) s = suffix)"

definition startswith :: "string \<Rightarrow> string \<Rightarrow> bool" where
  "startswith s prefix = (take (length prefix) s = prefix)"

text \<open>\<^verbatim>\<open>s.split(sep)\<close> for a separator of one character: never an empty list.\<close>

fun split_on :: "char \<Rightarrow> string \<Rightarrow> string list" where
  "split_on sep [] = [[]]"
| "split_on sep (c # cs) =
     (if c = sep then [] # split_on sep cs
      else (case split_on sep cs of [] \<Rightarrow> [[c]] | p # ps \<Rightarrow> (c # p) # ps))"

text \<open>The white space that \<^verbatim>\<open>int\<close> skips around a literal in an ASCII string.\<close>

definition is_space :: "char \<Rightarrow> bool" where
  "is_space c =
     List.member [CHR 0x09, CHR 0x0A, CHR 0x0B, CHR 0x0C, CHR 0x0D, CHR 0x20] c"

definition strip :: "string \<Rightarrow> string" where
  "strip s = rev (dropWhile is_space (rev (dropWhile is_space s)))"

definition digit_val :: "char \<Rightarrow> int option" where
  "digit_val c = map_of (zip ''0123456789'' [0, 1, 2, 3, 4, 5, 6, 7, 8, 9]) c"

text \<open>
  The digits of a decimal literal after its first digit: digits, with single underscores
  allowed between two digits.
\<close>

fun more_digits :: "int \<Rightarrow> string \<Rightarrow> int option" where
  "more_digits acc [] = Some acc"
| "more_digits acc [c] =
     (case digit_val c of Some v \<Rightarrow> Some (acc * 10 + v) | None \<Rightarrow> None)"
| "more_digits acc (c # d # cs) =
     (case digit_val c of
        Some v \<Rightarrow> more_digits (acc * 10 + v) (d # cs)
      | None \<Rightarrow>
          if c = CHR ''_'' then
            (case digit_val d of
               Some v \<Rightarrow> more_digits (acc * 10 + v) cs
             | None \<Rightarrow> None)
          else None)"

definition unsigned_literal :: "string \<Rightarrow> int option" where
  "unsigned_literal s =
     (case s of
        [] \<Rightarrow> None
      | c # cs \<Rightarrow> (case digit_val c of Some v \<Rightarrow> more_digits v cs | None \<Rightarrow> None))"

text \<open>
  The value of an ASCII string as an integer literal in base ten: white space around, an
  optional sign, a decimal literal. \<open>None\<close>: it is not one.
\<close>

definition ascii_int :: "string \<Rightarrow> int option" where
  "ascii_int s =
     (case strip s of
        [] \<Rightarrow> None
      | c # cs \<Rightarrow>
          if c = CHR ''-'' then map_option uminus (unsigned_literal cs)
          else if c = CHR ''+'' then unsigned_literal cs
          else unsigned_literal (c # cs))"

text \<open>The number of digits that the limit on integer strings counts.\<close>

definition digit_count :: "string \<Rightarrow> nat" where
  "digit_count s = length (filter (\<lambda>c. digit_val c \<noteq> None) s)"

text \<open>\<^verbatim>\<open>str(n)\<close> for an integer.\<close>

function str_pos :: "int \<Rightarrow> string" where
  "str_pos n =
     (if n < 10 then [''0123456789'' ! nat n]
      else str_pos (n div 10) @ [''0123456789'' ! nat (n mod 10)])"
  by pat_completeness auto
termination
  by (relation "measure nat") auto

declare str_pos.simps [simp del]

definition py_str_int :: "int \<Rightarrow> string" where
  "py_str_int n = (if n < 0 then CHR ''-'' # str_pos (- n) else str_pos n)"

section \<open>Paths\<close>

text \<open>\<^verbatim>\<open>s.rfind(c)\<close>: the highest index of \<open>c\<close>, or \<open>-1\<close>.\<close>

definition rfind :: "char \<Rightarrow> string \<Rightarrow> int" where
  "rfind c s =
     (if List.member s c
      then int (length s) - 1 - int (length (takeWhile (\<lambda>x. x \<noteq> c) (rev s)))
      else - 1)"

text \<open>
  \<^verbatim>\<open>os.path.splitext\<close> on POSIX (\<^verbatim>\<open>genericpath._splitext\<close> with separator \<^verbatim>\<open>/\<close>): the
  extension starts at the last dot of the last path component, unless only dots come
  before it in that component. \<open>has_non_dot\<close> is the loop that skips the leading dots.
\<close>

fun has_non_dot :: "string \<Rightarrow> bool" where
  "has_non_dot [] = False"
| "has_non_dot (c # cs) = (if c \<noteq> CHR ''.'' then True else has_non_dot cs)"

definition splitext :: "string \<Rightarrow> string \<times> string" where
  "splitext p =
     (let sepIndex = rfind CHR ''/'' p; dotIndex = rfind CHR ''.'' p
      in if sepIndex < dotIndex
            \<and> has_non_dot (take (nat (dotIndex - (sepIndex + 1))) (drop (nat (sepIndex + 1)) p))
         then (take (nat dotIndex) p, drop (nat dotIndex) p)
         else (p, []))"

text \<open>\<^verbatim>\<open>os.path.join(a, b)\<close> on POSIX, for two components.\<close>

definition os_path_join :: "string \<Rightarrow> string \<Rightarrow> string" where
  "os_path_join a b =
     (if startswith b ''/'' then b
      else if a = [] \<or> endswith a ''/'' then a @ b
      else a @ ''/'' @ b)"

section \<open>Float arithmetic\<close>

text \<open>
  Integer true division and \<^verbatim>\<open>round(x, 2)\<close> are correctly rounded in CPython: the result
  is the double nearest to the exact value, ties to the even mantissa. \<open>nearest_double\<close>
  rounds a positive rational to 53 significant bits (fewer below \<open>2^-1022\<close>, the
  subnormal range); a result of \<open>2^1024\<close> or more is out of range.
\<close>

definition pow2 :: "int \<Rightarrow> rat" where
  "pow2 k = (if 0 \<le> k then 2 ^ nat k else 1 / 2 ^ nat (- k))"

definition round_half_even :: "rat \<Rightarrow> int" where
  "round_half_even x =
     (let f = \<lfloor>x\<rfloor>; d = x - of_int f
      in if d < 1 / 2 then f else if 1 / 2 < d then f + 1
         else if even f then f else f + 1)"

text \<open>\<open>ilog2 x\<close> is the exponent \<open>e\<close> with \<open>2^e \<le> x < 2^(e+1)\<close>, for \<open>0 < x\<close>.\<close>

definition ilog2 :: "rat \<Rightarrow> int" where
  "ilog2 x =
     (let k = bitlen (fst (quotient_of x)) - bitlen (snd (quotient_of x))
      in if pow2 k \<le> x then k else k - 1)"

definition nearest_double :: "rat \<Rightarrow> rat" where
  "nearest_double x =
     (let e = max (ilog2 x) (- 1022); ulp = pow2 (e - 52)
      in of_int (round_half_even (x / ulp)) * ulp)"

text \<open>A float literal of the source text, such as \<^verbatim>\<open>29.97\<close>: the nearest double.\<close>

definition float_lit :: "rat \<Rightarrow> pyfloat" where
  "float_lit x =
     (if x = 0 then Fin 0
      else if x < 0 then Fin (- nearest_double (- x))
      else Fin (nearest_double x))"

text \<open>\<^verbatim>\<open>a / b\<close> for two integers.\<close>

definition py_truediv :: "int \<Rightarrow> int \<Rightarrow> pyexc + pyfloat" where
  "py_truediv a b =
     (if b = 0 then Inl ZeroDivisionError
      else let negate = ((a < 0) \<noteq> (b < 0)) in
        if a = 0 then Inr (if negate then NegZero else Fin 0)
        else let x = nearest_double (of_int \<bar>a\<bar> / of_int \<bar>b\<bar>) in
          if pow2 1024 \<le> x then Inl OverflowError
          else if x = 0 then Inr (if negate then NegZero else Fin 0)
          else Inr (Fin (if negate then - x else x)))"

text \<open>
  \<^verbatim>\<open>round(f, 2)\<close>: the exact value of the double is rounded to two decimals, ties to
  even, and the decimal result is converted back to the nearest double.
\<close>

definition py_round2 :: "pyfloat \<Rightarrow> pyexc + pyfloat" where
  "py_round2 f =
     (case f of
        Fin r \<Rightarrow>
          (let k = round_half_even (\<bar>r\<bar> * 100) in
           if k = 0 then Inr (if r < 0 then NegZero else Fin 0)
           else let y = nearest_double (of_int k / 100) in
             if pow2 1024 \<le> y then Inl OverflowError
             else Inr (Fin (if r < 0 then - y else y)))
      | _ \<Rightarrow> Inr f)"

text \<open>\<^verbatim>\<open>float(n)\<close> for an integer.\<close>

definition float_of_int :: "int \<Rightarrow> pyexc + pyfloat" where
  "float_of_int n =
     (if n = 0 then Inr (Fin 0)
      else let x = nearest_double (of_int \<bar>n\<bar>) in
        if pow2 1024 \<le> x then Inl OverflowError
        else Inr (Fin (if n < 0 then - x else x)))"

section \<open>The environment\<close>

text \<open>
  What the script reads from outside is a parameter of the model: the directory tree as
  \<^verbatim>\<open>os.path.exists\<close> and \<^verbatim>\<open>os.listdir\<close> see it, the outcome of opening a path for
  writing (\<open>None\<close>: the file is created or truncated), the outcome of
  \<^verbatim>\<open>subprocess.check_output\<close> on a command line, the outcome of \<^verbatim>\<open>json.loads\<close> on the
  bytes it returned, and Python's conversions between strings and floats
  (\<^verbatim>\<open>float(s)\<close>, where \<open>None\<close> is the \<open>ValueError\<close>, and \<^verbatim>\<open>repr\<close>).

  Three more parameters are what the interpreter and the output encoding decide:
  \<open>int_max_str_digits\<close> is \<^verbatim>\<open>sys.get_int_max_str_digits()\<close> (4300 by default since
  Python 3.11, 0 for no limit, as in the versions before); \<open>int_of_text\<close> is \<^verbatim>\<open>int(s)\<close> for
  a string with a code point beyond ASCII (Unicode white space and decimal digits are
  accepted there), \<open>None\<close> being the \<open>ValueError\<close>; \<open>writerow_error\<close> is the exception that
  \<^verbatim>\<open>writer.writerow\<close> raises for a data row, if any, such as \<^verbatim>\<open>UnicodeEncodeError\<close> for a
  file name that is not valid UTF-8 (\<open>None\<close>: the row is written).
\<close>

datatype node = RegularFile | Directory "string list"

record world =
  fs_node :: "string \<Rightarrow> node option"
  open_w :: "string \<Rightarrow> pyexc option"
  check_output :: "string list \<Rightarrow> pyexc + string"
  json_loads :: "string \<Rightarrow> pyexc + json"
  float_of_str :: "string \<Rightarrow> pyfloat option"
  float_repr :: "pyfloat \<Rightarrow> string"
  int_max_str_digits :: nat
  int_of_text :: "string \<Rightarrow> int option"
  writerow_error :: "pyval list \<Rightarrow> pyexc option"

definition os_path_exists :: "world \<Rightarrow> string \<Rightarrow> bool" where
  "os_path_exists w p = (case fs_node w p of None \<Rightarrow> False | Some n \<Rightarrow> True)"

definition os_listdir :: "world \<Rightarrow> string \<Rightarrow> pyexc + string list" where
  "os_listdir w p =
     (case fs_node w p of
        None \<Rightarrow> Inl FileNotFoundError
      | Some RegularFile \<Rightarrow> Inl NotADirectoryError
      | Some (Directory entries) \<Rightarrow> Inr entries)"

section \<open>Conversions and dict access on parsed JSON\<close>

definition trunc_rat :: "rat \<Rightarrow> int" where
  "trunc_rat r = (if 0 \<le> r then \<lfloor>r\<rfloor> else - \<lfloor>- r\<rfloor>)"

text \<open>
  \<^verbatim>\<open>int(s)\<close> for a string, \<open>None\<close> being the \<open>ValueError\<close>. A string with a code point
  beyond ASCII is the interpreter's to read. An ASCII string with more digits than the
  limit is refused (the limit is looked at only above 640 digits); any other is read as
  a literal.
\<close>

definition py_int_str :: "world \<Rightarrow> string \<Rightarrow> int option" where
  "py_int_str w s =
     (if filter digit7 s \<noteq> [] then int_of_text w s
      else if 640 < digit_count s \<and> 0 < int_max_str_digits w
              \<and> int_max_str_digits w < digit_count s
      then None
      else ascii_int s)"

text \<open>\<^verbatim>\<open>float(x)\<close>.\<close>

fun py_float :: "world \<Rightarrow> json \<Rightarrow> pyexc + pyfloat" where
  "py_float w JNull = Inl TypeError"
| "py_float w (JBool b) = Inr (Fin (if b then 1 else 0))"
| "py_float w (JInt n) = float_of_int n"
| "py_float w (JFloat f) = Inr f"
| "py_float w (JStr s) =
     (case float_of_str w s of None \<Rightarrow> Inl ValueError | Some f \<Rightarrow> Inr f)"
| "py_float w (JArr xs) = Inl TypeError"
| "py_float w (JObj kv) = Inl TypeError"

text \<open>\<^verbatim>\<open>int(x)\<close>.\<close>

fun py_int :: "world \<Rightarrow> json \<Rightarrow> pyexc + int" where
  "py_int w JNull = Inl TypeError"
| "py_int w (JBool b) = Inr (if b then 1 else 0)"
| "py_int w (JInt n) = Inr n"
| "py_int w (JFloat f) =
     (case f of
        Fin r \<Rightarrow> Inr (trunc_rat r)
      | NegZero \<Rightarrow> Inr 0
      | PosInf \<Rightarrow> Inl OverflowError
      | NegInf \<Rightarrow> Inl OverflowError
      | NaN \<Rightarrow> Inl ValueError)"
| "py_int w (JStr s) =
     (case py_int_str w s of None \<Rightarrow> Inl ValueError | Some n \<Rightarrow> Inr n)"
| "py_int w (JArr xs) = Inl TypeError"
| "py_int w (JObj kv) = Inl TypeError"

text \<open>\<^verbatim>\<open>x.get(k, dflt)\<close>: only a dict has the method.\<close>

fun dict_get :: "json \<Rightarrow> string \<Rightarrow> json \<Rightarrow> pyexc + json" where
  "dict_get (JObj kv) k dflt = Inr (case map_of kv k of Some v \<Rightarrow> v | None \<Rightarrow> dflt)"
| "dict_get JNull k dflt = Inl AttributeError"
| "dict_get (JBool b) k dflt = Inl AttributeError"
| "dict_get (JInt n) k dflt = Inl AttributeError"
| "dict_get (JFloat f) k dflt = Inl AttributeError"
| "dict_get (JStr s) k dflt = Inl AttributeError"
| "dict_get (JArr xs) k dflt = Inl AttributeError"

text \<open>\<^verbatim>\<open>x.split('/')\<close>: only a string has the method.\<close>

fun split_slash :: "json \<Rightarrow> pyexc + string list" where
  "split_slash (JStr s) = Inr (split_on CHR ''/'' s)"
| "split_slash JNull = Inl AttributeError"
| "split_slash (JBool b) = Inl AttributeError"
| "split_slash (JInt n) = Inl AttributeError"
| "split_slash (JFloat f) = Inl AttributeError"
| "split_slash (JArr xs) = Inl AttributeError"
| "split_slash (JObj kv) = Inl AttributeError"

text \<open>
  The elements that \<^verbatim>\<open>for s in x\<close> visits: those of a list, the keys of a dict, the
  characters of a string; anything else is not iterable.
\<close>

fun py_iter :: "json \<Rightarrow> pyexc + json list" where
  "py_iter (JArr xs) = Inr xs"
| "py_iter (JObj kv) = Inr (map (\<lambda>item. JStr (fst item)) kv)"
| "py_iter (JStr s) = Inr (map (\<lambda>c. JStr [c]) s)"
| "py_iter JNull = Inl TypeError"
| "py_iter (JBool b) = Inl TypeError"
| "py_iter (JInt n) = Inl TypeError"
| "py_iter (JFloat f) = Inl TypeError"

text \<open>The truth value of an object in a condition.\<close>

fun py_truthy :: "json \<Rightarrow> bool" where
  "py_truthy JNull = False"
| "py_truthy (JBool b) = b"
| "py_truthy (JInt n) = (n \<noteq> 0)"
| "py_truthy (JFloat f) = (f \<noteq> Fin 0 \<and> f \<noteq> NegZero)"
| "py_truthy (JStr s) = (s \<noteq> [])"
| "py_truthy (JArr xs) = (xs \<noteq> [])"
| "py_truthy (JObj kv) = (kv \<noteq> [])"

section \<open>\<^verbatim>\<open>get_video_metadata\<close>\<close>

text \<open>
  \<^verbatim>\<open>next((s for s in streams if s.get('codec_type') == t), default)\<close>: the generator
  stops at the first match, so the elements after it are never looked at; \<open>None\<close> is the
  default.
\<close>

fun next_stream :: "string \<Rightarrow> json list \<Rightarrow> pyexc + json option" where
  "next_stream t [] = Inr None"
| "next_stream t (s # ss) =
     (case dict_get s ''codec_type'' JNull of
        Inl e \<Rightarrow> Inl e
      | Inr v \<Rightarrow> if v = JStr t then Inr (Some s) else next_stream t ss)"

text \<open>
  The \<^verbatim>\<open>try\<close> block updates \<^verbatim>\<open>metadata\<close> in place and may raise half way: a statement
  takes the record and returns it updated, with the exception it raised, if any.
  \<open>assign r upd\<close> is an assignment whose right-hand side evaluates to \<open>r\<close>.
\<close>

type_synonym stmt_result = "metadata \<times> pyexc option"

definition and_then :: "stmt_result \<Rightarrow> (metadata \<Rightarrow> stmt_result) \<Rightarrow> stmt_result" where
  "and_then r f = (case r of (m, None) \<Rightarrow> f m | (m, Some e) \<Rightarrow> (m, Some e))"

definition assign ::
  "pyexc + 'a \<Rightarrow> ('a \<Rightarrow> metadata \<Rightarrow> metadata) \<Rightarrow> metadata \<Rightarrow> stmt_result" where
  "assign r upd m = (case r of Inl e \<Rightarrow> (m, Some e) | Inr v \<Rightarrow> (upd v m, None))"

definition initial_metadata :: metadata where
  "initial_metadata =
     \<lparr>duration = PNone, width = PNone, height = PNone, fps = PNone,
      has_audio = PInt 0, bitrate = PNone\<rparr>"

definition ffprobe_cmd :: "string \<Rightarrow> string list" where
  "ffprobe_cmd video_path =
     [''ffprobe'', ''-v'', ''quiet'', ''-print_format'', ''json'',
      ''-show_format'', ''-show_streams'', video_path]"

text \<open>Lines 73 to 77: duration and bitrate from the \<^verbatim>\<open>format\<close> section.\<close>

definition read_format :: "world \<Rightarrow> json \<Rightarrow> metadata \<Rightarrow> stmt_result" where
  "read_format w info m =
     (case dict_get info ''format'' (JObj []) of
        Inl e \<Rightarrow> (m, Some e)
      | Inr fmt \<Rightarrow>
          and_then
            (assign (exc_bind (dict_get fmt ''duration'' (JInt 0)) (py_float w))
               (\<lambda>d m. m\<lparr>duration := PFloat d\<rparr>) m)
            (assign (exc_bind (dict_get fmt ''bit_rate'' (JInt 0)) (py_int w))
               (\<lambda>b m. m\<lparr>bitrate := PInt b\<rparr>)))"

text \<open>
  Lines 102 to 106: the value stored in \<^verbatim>\<open>metadata['fps']\<close>, from the parts of the rate
  string. The \<^verbatim>\<open>and\<close> evaluates \<^verbatim>\<open>int(fps_parts[1])\<close> only for two parts; the division
  evaluates \<^verbatim>\<open>int(fps_parts[0])\<close> first.
\<close>

definition compute_fps :: "world \<Rightarrow> string list \<Rightarrow> pyexc + pyval" where
  "compute_fps w fps_parts =
     (if length fps_parts = 2 then
        (case py_int_str w (fps_parts ! 1) of
           None \<Rightarrow> Inl ValueError
         | Some d \<Rightarrow>
             if d \<noteq> 0 then
               (case py_int_str w (fps_parts ! 0) of
                  None \<Rightarrow> Inl ValueError
                | Some n \<Rightarrow>
                    exc_bind (exc_bind (py_truediv n d) py_round2) (\<lambda>r. Inr (PFloat r)))
             else Inr (PInt 0))
      else Inr (PInt 0))"

text \<open>Lines 99 to 106, from the video stream entry.\<close>

definition frame_rate :: "world \<Rightarrow> json \<Rightarrow> pyexc + pyval" where
  "frame_rate w video_stream =
     exc_bind
       (exc_bind (dict_get video_stream ''r_frame_rate'' (JStr ''0/1'')) split_slash)
       (compute_fps w)"

text \<open>Lines 93 to 106: the body of \<^verbatim>\<open>if video_stream:\<close>.\<close>

definition read_video :: "world \<Rightarrow> json \<Rightarrow> metadata \<Rightarrow> stmt_result" where
  "read_video w video_stream m =
     and_then
       (assign (exc_bind (dict_get video_stream ''width'' (JInt 0)) (py_int w))
          (\<lambda>v m. m\<lparr>width := PInt v\<rparr>) m)
       (\<lambda>m. and_then
          (assign (exc_bind (dict_get video_stream ''height'' (JInt 0)) (py_int w))
             (\<lambda>v m. m\<lparr>height := PInt v\<rparr>) m)
          (assign (frame_rate w video_stream) (\<lambda>v m. m\<lparr>fps := v\<rparr>)))"

text \<open>Lines 56 to 109: the \<^verbatim>\<open>try\<close> block.\<close>

definition try_body :: "world \<Rightarrow> string \<Rightarrow> metadata \<Rightarrow> stmt_result" where
  "try_body w video_path m =
     (case exc_bind (check_output w (ffprobe_cmd video_path)) (json_loads w) of
        Inl e \<Rightarrow> (m, Some e)
      | Inr info \<Rightarrow>
          and_then (read_format w info m) (\<lambda>m.
            case dict_get info ''streams'' (JArr []) of
              Inl e \<Rightarrow> (m, Some e)
            | Inr streams \<Rightarrow>
               (case exc_bind (py_iter streams) (next_stream ''video'') of
                  Inl e \<Rightarrow> (m, Some e)
                | Inr found_video \<Rightarrow>
                   (case exc_bind (py_iter streams) (next_stream ''audio'') of
                      Inl e \<Rightarrow> (m, Some e)
                    | Inr audio_stream \<Rightarrow>
                        let video_stream =
                              (case found_video of None \<Rightarrow> JObj [] | Some s \<Rightarrow> s)
                        in and_then
                             (if py_truthy video_stream then read_video w video_stream m
                              else (m, None))
                             (\<lambda>m. (m\<lparr>has_audio :=
                                        PInt (if (case audio_stream of
                                                    None \<Rightarrow> False
                                                  | Some s \<Rightarrow> py_truthy s)
                                              then 1 else 0)\<rparr>, None))))))"

text \<open>The classes named by the \<^verbatim>\<open>except\<close> clause (line 111).\<close>

definition handled :: "pyexc \<Rightarrow> bool" where
  "handled e =
     (e = CalledProcessError \<or> e = ValueError \<or> e = KeyError \<or> e = ZeroDivisionError)"

datatype log_record =
    ErrorProcessing string pyexc
  | ErrorNoDirectory string
  | InfoFound nat string
  | InfoCompleted string

text \<open>
  The result is what the caller sees, the returned record or the exception that escapes,
  and the records logged on the way.
\<close>

definition get_video_metadata :: "world \<Rightarrow> string \<Rightarrow> (pyexc + metadata) \<times> log_record list" where
  "get_video_metadata w video_path =
     (case try_body w video_path initial_metadata of
        (metadata, None) \<Rightarrow> (Inr metadata, [])
      | (metadata, Some e) \<Rightarrow>
          if handled e then (Inr metadata, [ErrorProcessing video_path e])
          else (Inl e, []))"

section \<open>The CSV writer\<close>

text \<open>
  \<^verbatim>\<open>csv.writer\<close> with the default dialect: \<^verbatim>\<open>None\<close> is written as the empty string, a
  string as it is, a number as \<^verbatim>\<open>str\<close> prints it; a field with a comma, a double quote,
  a carriage return or a line feed is put in double quotes, with its double quotes
  doubled; fields are joined by commas and the line ends with \<^verbatim>\<open>\r\n\<close>.
\<close>

definition field_text :: "world \<Rightarrow> pyval \<Rightarrow> string" where
  "field_text w v =
     (case v of
        PNone \<Rightarrow> []
      | PInt n \<Rightarrow> py_str_int n
      | PFloat f \<Rightarrow> float_repr w f
      | PStr s \<Rightarrow> s)"

definition quote_minimal :: "string \<Rightarrow> string" where
  "quote_minimal s =
     (if filter (List.member [CHR '','', CHR 0x22, CHR 0x0D, CHR 0x0A]) s = [] then s
      else CHR 0x22 # concat (map (\<lambda>c. if c = CHR 0x22 then [c, c] else [c]) s) @ [CHR 0x22])"

definition csv_field :: "world \<Rightarrow> pyval \<Rightarrow> string" where
  "csv_field w v = quote_minimal (field_text w v)"

fun join_comma :: "string list \<Rightarrow> string" where
  "join_comma [] = []"
| "join_comma [x] = x"
| "join_comma (x # y # ys) = x @ CHR '','' # join_comma (y # ys)"

definition csv_line :: "world \<Rightarrow> pyval list \<Rightarrow> string" where
  "csv_line w row = join_comma (map (csv_field w) row) @ [CHR 0x0D, CHR 0x0A]"

definition csv_text :: "world \<Rightarrow> pyval list list \<Rightarrow> string" where
  "csv_text w rows = concat (map (csv_line w) rows)"

section \<open>\<^verbatim>\<open>process_videos\<close>\<close>

text \<open>
  A run ends with the exception that escaped, if any, the rows passed to
  \<^verbatim>\<open>writer.writerow\<close> (\<open>None\<close>: the output file was never opened, so it is neither
  created nor changed) and the records logged. Writing the header, which is ASCII, is
  taken to succeed; writing a data row raises what \<open>writerow_error\<close> says.
\<close>

record run =
  raised :: "pyexc option"
  written :: "pyval list list option"
  logged :: "log_record list"

definition header_row :: "pyval list" where
  "header_row =
     [PStr ''Id'', PStr ''duration'', PStr ''width'', PStr ''height'', PStr ''fps'',
      PStr ''has_audio'', PStr ''bitrate'']"

definition data_row :: "string \<Rightarrow> metadata \<Rightarrow> pyval list" where
  "data_row vid_id meta =
     [PStr vid_id, duration meta, width meta, height meta, fps meta, has_audio meta,
      bitrate meta]"

text \<open>
  Lines 152 to 171: the loop, with the rows written and the records logged so far
  (\<^verbatim>\<open>tqdm\<close> only shows the progress). An exception that escapes
  \<^verbatim>\<open>get_video_metadata\<close> ends it, and so does one that \<^verbatim>\<open>writer.writerow\<close> raises: the
  row is then not written.
\<close>

fun write_rows ::
  "world \<Rightarrow> string \<Rightarrow> string list \<Rightarrow> pyval list list \<Rightarrow> log_record list
     \<Rightarrow> pyexc option \<times> pyval list list \<times> log_record list" where
  "write_rows w video_dir [] rows lg = (None, rows, lg)"
| "write_rows w video_dir (f # files) rows lg =
     (let vid_id = fst (splitext f);
          path = os_path_join video_dir f
      in case get_video_metadata w path of
           (Inl e, lg') \<Rightarrow> (Some e, rows, lg @ lg')
         | (Inr meta, lg') \<Rightarrow>
             (case writerow_error w (data_row vid_id meta) of
                Some e \<Rightarrow> (Some e, rows, lg @ lg')
              | None \<Rightarrow>
                  write_rows w video_dir files (rows @ [data_row vid_id meta]) (lg @ lg')))"

definition process_videos :: "world \<Rightarrow> string \<Rightarrow> string \<Rightarrow> run" where
  "process_videos w video_dir output_csv =
     (if \<not> os_path_exists w video_dir then
        \<lparr>raised = None, written = None, logged = [ErrorNoDirectory video_dir]\<rparr>
      else
        (case os_listdir w video_dir of
           Inl e \<Rightarrow> \<lparr>raised = Some e, written = None, logged = []\<rparr>
         | Inr entries \<Rightarrow>
             let files = filter (\<lambda>f. endswith (lower f) ''.mp4'') entries;
                 lg = [InfoFound (length files) video_dir]
             in (case open_w w output_csv of
                   Some e \<Rightarrow> \<lparr>raised = Some e, written = None, logged = lg\<rparr>
                 | None \<Rightarrow>
                    (case write_rows w video_dir files [header_row] lg of
                       (Some e, rows, lg') \<Rightarrow>
                         \<lparr>raised = Some e, written = Some rows, logged = lg'\<rparr>
                     | (None, rows, lg') \<Rightarrow>
                         \<lparr>raised = None, written = Some rows,
                          logged = lg' @ [InfoCompleted output_csv]\<rparr>))))"

section \<open>Example environments\<close>

text \<open>
  A probe result as \<^verbatim>\<open>ffprobe\<close> prints it for an NTSC clip with sound, and a directory
  \<^verbatim>\<open>videos\<close> with two clips and a text file.
\<close>

definition json_ok :: json where
  "json_ok = JObj
     [(''format'', JObj [(''duration'', JStr ''12.5''), (''bit_rate'', JStr ''800000'')]),
      (''streams'', JArr
         [JObj [(''codec_type'', JStr ''video''), (''width'', JInt 1920),
                (''height'', JInt 1080), (''r_frame_rate'', JStr ''30000/1001'')],
          JObj [(''codec_type'', JStr ''audio'')]])]"

definition meta_ok :: metadata where
  "meta_ok =
     \<lparr>duration = PFloat (Fin (25 / 2)), width = PInt 1920, height = PInt 1080,
      fps = PFloat (float_lit (2997 / 100)), has_audio = PInt 1, bitrate = PInt 800000\<rparr>"

definition world_ok :: world where
  "world_ok =
     \<lparr>fs_node = (\<lambda>p. if p = ''videos''
                      then Some (Directory [''clip_1.mp4'', ''CLIP_2.MP4'', ''notes.txt''])
                      else if p = ''videos/clip_1.mp4'' then Some RegularFile
                      else None),
      open_w = (\<lambda>p. None),
      check_output = (\<lambda>cmd. Inr ''{}''),
      json_loads = (\<lambda>out. Inr json_ok),
      float_of_str = (\<lambda>s. if s = ''12.5'' then Some (Fin (25 / 2)) else None),
      float_repr = (\<lambda>f. if f = Fin (25 / 2) then ''12.5'' else ''29.97''),
      int_max_str_digits = 4300,
      int_of_text = (\<lambda>s. None),
      writerow_error = (\<lambda>row. None)\<rparr>"

text \<open>The same machine without \<^verbatim>\<open>ffprobe\<close> installed.\<close>

definition world_no_ffprobe :: world where
  "world_no_ffprobe = world_ok\<lparr>check_output := (\<lambda>cmd. Inl FileNotFoundError)\<rparr>"


text \<open>A probe result whose frame rate has a denominator that is not a number.\<close>

definition json_bad_rate :: json where
  "json_bad_rate = JObj
     [(''format'', JObj [(''duration'', JStr ''12.5''), (''bit_rate'', JStr ''800000'')]),
      (''streams'', JArr
         [JObj [(''codec_type'', JStr ''video''), (''width'', JInt 1920),
                (''height'', JInt 1080), (''r_frame_rate'', JStr ''30/x'')],
          JObj [(''codec_type'', JStr ''audio'')]])]"

definition world_bad_rate :: world where
  "world_bad_rate = world_ok\<lparr>json_loads := (\<lambda>out. Inr json_bad_rate)\<rparr>"

text \<open>A probe result whose frame rate has the denominator zero.\<close>

definition json_zero_rate :: json where
  "json_zero_rate = JObj
     [(''format'', JObj [(''duration'', JStr ''12.5''), (''bit_rate'', JStr ''800000'')]),
      (''streams'', JArr
         [JObj [(''codec_type'', JStr ''video''), (''width'', JInt 1920),
                (''height'', JInt 1080), (''r_frame_rate'', JStr ''30/0'')],
          JObj [(''codec_type'', JStr ''audio'')]])]"

definition world_zero_rate :: world where
  "world_zero_rate = world_ok\<lparr>json_loads := (\<lambda>out. Inr json_zero_rate)\<rparr>"

text \<open>A probe result with an audio stream and a bit rate that is not a number.\<close>

definition json_no_bitrate :: json where
  "json_no_bitrate = JObj
     [(''format'', JObj [(''duration'', JStr ''12.5''), (''bit_rate'', JStr ''N/A'')]),
      (''streams'', JArr [JObj [(''codec_type'', JStr ''audio'')]])]"

definition world_no_bitrate :: world where
  "world_no_bitrate = world_ok\<lparr>json_loads := (\<lambda>out. Inr json_no_bitrate)\<rparr>"

text \<open>A directory whose only entry is named \<^verbatim>\<open>.mp4\<close>.\<close>

definition world_dotfile :: world where
  "world_dotfile =
     world_ok\<lparr>fs_node := (\<lambda>p. if p = ''videos'' then Some (Directory [''.mp4'']) else None)\<rparr>"

text \<open>
  A directory whose only entry has a name that is not valid UTF-8 (the byte \<^verbatim>\<open>0xFF\<close>
  before the extension): the probe result is as before, but the row with the name cannot
  be encoded for the output file, and \<^verbatim>\<open>writer.writerow\<close> raises \<^verbatim>\<open>UnicodeEncodeError\<close>,
  a \<open>ValueError\<close>.
\<close>

definition world_bad_name :: world where
  "world_bad_name =
     world_ok\<lparr>fs_node := (\<lambda>p. if p = ''videos'' then Some (Directory [CHR 0xFF # ''.mp4''])
                              else None),
              writerow_error := (\<lambda>row. if hd row = PStr [CHR 0xFF] then Some ValueError
                                       else None)\<rparr>"

section \<open>Statements of the \<^verbatim>\<open>try\<close> block\<close>

lemma exc_bind_simps [simp]:
  "exc_bind (Inl e) f = Inl e" "exc_bind (Inr x) f = f x"
  by (simp_all add: exc_bind_def)

lemma and_then_simps [simp]:
  "and_then (m, None) f = f m" "and_then (m, Some e) f = (m, Some e)"
  by (simp_all add: and_then_def)

lemma assign_simps [simp]:
  "assign (Inl e) upd m = (m, Some e)" "assign (Inr v) upd m = (upd v m, None)"
  by (simp_all add: assign_def)

lemma read_format_has_audio: "has_audio (fst (read_format w info m)) = has_audio m"
  by (cases "dict_get info ''format'' (JObj [])")
     (auto simp: read_format_def assign_def and_then_def exc_bind_def split: sum.splits)

lemma read_video_has_audio: "has_audio (fst (read_video w v m)) = has_audio m"
  by (auto simp: read_video_def assign_def and_then_def exc_bind_def split: sum.splits)

lemma read_video_fps: "read_video w v m = (m', None) \<Longrightarrow> frame_rate w v = Inr (fps m')"
  by (auto simp: read_video_def assign_def and_then_def exc_bind_def split: sum.splits)

lemma read_video_raises: "read_video w v m = (m', Some e) \<Longrightarrow> fps m' = fps m"
  by (auto simp: read_video_def assign_def and_then_def exc_bind_def split: sum.splits)

lemma try_body_returns:
  assumes "try_body w p m = (m', None)"
  obtains out info streams ss found_video audio_stream m1 m2 where
    "check_output w (ffprobe_cmd p) = Inr out"
    "json_loads w out = Inr info"
    "read_format w info m = (m1, None)"
    "dict_get info ''streams'' (JArr []) = Inr streams"
    "py_iter streams = Inr ss"
    "next_stream ''video'' ss = Inr found_video"
    "next_stream ''audio'' ss = Inr audio_stream"
    "(if py_truthy (case found_video of None \<Rightarrow> JObj [] | Some s \<Rightarrow> s)
      then read_video w (case found_video of None \<Rightarrow> JObj [] | Some s \<Rightarrow> s) m1
      else (m1, None)) = (m2, None)"
    "m' = m2\<lparr>has_audio := PInt (if (case audio_stream of None \<Rightarrow> False | Some s \<Rightarrow> py_truthy s)
                                   then 1 else 0)\<rparr>"
  using assms
  by (auto simp: try_body_def and_then_def exc_bind_def Let_def
           split: sum.splits option.splits prod.splits if_splits)

lemma read_format_keeps: "read_format w info m = (m', x) \<Longrightarrow> has_audio m' = has_audio m"
  using read_format_has_audio[of w info m] by simp

lemma read_video_keeps: "read_video w v m = (m', x) \<Longrightarrow> has_audio m' = has_audio m"
  using read_video_has_audio[of w v m] by simp

lemma try_body_raises_has_audio:
  assumes "try_body w p m = (m', Some e)"
  shows "has_audio m' = has_audio m"
  using assms
  apply (auto simp: try_body_def and_then_def exc_bind_def Let_def
           split: sum.splits option.splits prod.splits if_splits
           dest: read_format_keeps)
   apply (metis read_format_keeps read_video_keeps)+
  done



lemma get_video_metadata_contains:
  assumes "handled e"
      and "exc_bind (check_output w (ffprobe_cmd p)) (json_loads w) = Inl e"
  shows "get_video_metadata w p = (Inr initial_metadata, [ErrorProcessing p e])"
  using assms by (simp add: get_video_metadata_def try_body_def)

lemma get_video_metadata_escapes:
  "fst (get_video_metadata w p) = Inl e \<longleftrightarrow>
     (\<exists>m. try_body w p initial_metadata = (m, Some e)) \<and> \<not> handled e"
  by (cases "try_body w p initial_metadata")
     (auto simp: get_video_metadata_def split: option.splits)

section \<open>What escapes \<^verbatim>\<open>get_video_metadata\<close>\<close>

text \<open>
  Claim C1 says that \<^verbatim>\<open>get_video_metadata\<close> never raises to its caller, also when the
  probing tool is absent. The \<^verbatim>\<open>except\<close> clause names four classes; a missing
  \<^verbatim>\<open>ffprobe\<close> makes \<^verbatim>\<open>subprocess.check_output\<close> raise \<open>FileNotFoundError\<close>, which is
  none of them. On a machine without \<^verbatim>\<open>ffprobe\<close> the exception escapes the function and
  no record is returned.
\<close>

theorem tool_not_found_escapes:
  "get_video_metadata world_no_ffprobe ''videos/clip_1.mp4'' = (Inl FileNotFoundError, [])"
  by (simp add: get_video_metadata_def try_body_def world_no_ffprobe_def world_ok_def handled_def)

text \<open>
  Claim C2 says that the number of data rows equals the number of entries that match the
  extension filter, however many extractions fail. In the directory \<^verbatim>\<open>videos\<close> two
  entries match; without \<^verbatim>\<open>ffprobe\<close> the first extraction raises, the loop ends, and the
  output file holds the header and no data row.
\<close>

theorem tool_not_found_loses_rows:
  "process_videos world_no_ffprobe ''videos'' ''out.csv'' =
     \<lparr>raised = Some FileNotFoundError, written = Some [header_row],
      logged = [InfoFound 2 ''videos'']\<rparr>
   \<and> length (filter (\<lambda>f. endswith (lower f) ''.mp4'') [''clip_1.mp4'', ''CLIP_2.MP4'', ''notes.txt'']) = 2"
  by (simp add: process_videos_def os_path_exists_def os_listdir_def get_video_metadata_def
       try_body_def world_no_ffprobe_def world_ok_def handled_def endswith_def lower_def
       lower_char_def)

section \<open>The input path\<close>

text \<open>
  Claim C6: for a path that does not exist, \<^verbatim>\<open>process_videos\<close> logs one error and
  returns; the output file is never opened and no exception escapes.
\<close>

theorem missing_directory_is_a_no_op:
  "fs_node w video_dir = None \<Longrightarrow>
   process_videos w video_dir output_csv =
     \<lparr>raised = None, written = None, logged = [ErrorNoDirectory video_dir]\<rparr>"
  by (simp add: process_videos_def os_path_exists_def)

theorem missing_directory_is_a_no_op_witness:
  "fs_node world_ok ''missing'' = None \<and>
   process_videos world_ok ''missing'' ''out.csv'' =
     \<lparr>raised = None, written = None, logged = [ErrorNoDirectory ''missing'']\<rparr>"
  using missing_directory_is_a_no_op [of world_ok "''missing''" "''out.csv''"]
  by (simp add: world_ok_def)

lemma write_rows_result:
  assumes "write_rows w d files rows lg = (x, rows', lg')"
  shows "\<exists>k new l. k \<le> length files \<and> rows' = rows @ new \<and> lg' = lg @ l
           \<and> list_all2 (\<lambda>f r. \<exists>m lg. get_video_metadata w (os_path_join d f) = (Inr m, lg)
                 \<and> r = data_row (fst (splitext f)) m) (take k files) new
           \<and> (x = None \<longrightarrow> k = length files)
           \<and> (\<forall>e. x = Some e \<longrightarrow> k < length files)"
  using assms
proof (induction files arbitrary: rows lg)
  case Nil
  then show ?case by simp
next
  case (Cons f files)
  obtain r l1 where g: "get_video_metadata w (os_path_join d f) = (r, l1)"
    by (cases "get_video_metadata w (os_path_join d f)")
  show ?case
  proof (cases r)
    case (Inl e)
    with Cons.prems g have "x = Some e" "rows' = rows" "lg' = lg @ l1"
      by (simp_all add: Let_def)
    then show ?thesis
      by (intro exI[of _ 0] exI[of _ "[]"] exI[of _ l1]) simp
  next
    case (Inr m)
    show ?thesis
    proof (cases "writerow_error w (data_row (fst (splitext f)) m)")
      case (Some e)
      with Cons.prems g Inr have "x = Some e" "rows' = rows" "lg' = lg @ l1"
        by (simp_all add: Let_def)
      then show ?thesis
        by (intro exI[of _ 0] exI[of _ "[]"] exI[of _ l1]) simp
    next
      case None
      with Cons.prems g Inr
      have "write_rows w d files (rows @ [data_row (fst (splitext f)) m]) (lg @ l1)
              = (x, rows', lg')"
        by (simp add: Let_def)
      from Cons.IH[OF this] obtain k new l where
        k: "k \<le> length files"
        and r: "rows' = (rows @ [data_row (fst (splitext f)) m]) @ new"
        and l: "lg' = (lg @ l1) @ l"
        and a: "list_all2 (\<lambda>f r. \<exists>m lg. get_video_metadata w (os_path_join d f) = (Inr m, lg)
                   \<and> r = data_row (fst (splitext f)) m) (take k files) new"
        and n: "x = None \<longrightarrow> k = length files"
        and e: "\<forall>e. x = Some e \<longrightarrow> k < length files"
        by blast
      from a g Inr have
        "list_all2 (\<lambda>f r. \<exists>m lg. get_video_metadata w (os_path_join d f) = (Inr m, lg)
                   \<and> r = data_row (fst (splitext f)) m) (take (Suc k) (f # files))
           (data_row (fst (splitext f)) m # new)"
        by simp
      with k r l n e show ?thesis
        by (intro exI[of _ "Suc k"] exI[of _ "data_row (fst (splitext f)) m # new"]
                  exI[of _ "l1 @ l"]) simp
    qed
  qed
qed

lemma write_rows_log_prefix:
  "write_rows w d files rows lg = (x, rows', lg') \<Longrightarrow> \<exists>l. lg' = lg @ l"
  by (drule write_rows_result) blast

text \<open>
  Claim C10: a path that exists and is a regular file passes the existence check; the
  enumeration then raises \<open>NotADirectoryError\<close>, which escapes \<^verbatim>\<open>process_videos\<close>
  before the output file is opened. The run logs the missing-directory error exactly
  when the path does not exist.
\<close>

theorem not_a_directory_escapes:
  "(fs_node w video_dir = Some RegularFile \<longrightarrow>
      os_path_exists w video_dir \<and>
      os_listdir w video_dir = Inl NotADirectoryError \<and>
      process_videos w video_dir output_csv =
        \<lparr>raised = Some NotADirectoryError, written = None, logged = []\<rparr>)
   \<and> (logged (process_videos w video_dir output_csv) = [ErrorNoDirectory video_dir]
        \<longleftrightarrow> fs_node w video_dir = None)"
proof -
  have "logged (process_videos w video_dir output_csv) \<noteq> [ErrorNoDirectory video_dir]"
    if "fs_node w video_dir = Some n" for n
    using that
    by (auto simp: process_videos_def os_path_exists_def os_listdir_def Let_def
             split: node.splits option.splits prod.splits
             dest!: write_rows_log_prefix)
  then show ?thesis
    by (cases "fs_node w video_dir")
       (auto simp: process_videos_def os_path_exists_def os_listdir_def)
qed

theorem not_a_directory_escapes_witness:
  "fs_node world_ok ''videos/clip_1.mp4'' = Some RegularFile \<and>
   process_videos world_ok ''videos/clip_1.mp4'' ''out.csv'' =
     \<lparr>raised = Some NotADirectoryError, written = None, logged = []\<rparr> \<and>
   logged (process_videos world_ok ''videos/clip_1.mp4'' ''out.csv'') \<noteq> [ErrorNoDirectory ''videos/clip_1.mp4'']"
  using not_a_directory_escapes [of world_ok "''videos/clip_1.mp4''" "''out.csv''"]
  by (simp add: world_ok_def)

section \<open>File names\<close>

lemma lower_char_dot: "lower_char c = CHR ''.'' \<longleftrightarrow> c = CHR ''.''"
  by (auto simp: lower_char_def split: if_splits)

lemma lower_char_4: "lower_char c = CHR ''4'' \<longleftrightarrow> c = CHR ''4''"
  by (auto simp: lower_char_def split: if_splits)

lemma lower_char_m: "lower_char c = CHR ''m'' \<longleftrightarrow> c = CHR ''m'' \<or> c = CHR ''M''"
  by (auto simp: lower_char_def split: if_splits)

lemma lower_char_p: "lower_char c = CHR ''p'' \<longleftrightarrow> c = CHR ''p'' \<or> c = CHR ''P''"
  by (auto simp: lower_char_def split: if_splits)

lemma endswith_lower_mp4:
  "endswith (lower f) ''.mp4'' \<longleftrightarrow>
     (\<exists>stem b c. f = stem @ [CHR ''.'', b, c, CHR ''4'']
        \<and> (b = CHR ''m'' \<or> b = CHR ''M'') \<and> (c = CHR ''p'' \<or> c = CHR ''P''))"
proof
  assume a: "endswith (lower f) ''.mp4''"
  then have len: "4 \<le> length f" and d: "map lower_char (drop (length f - 4) f) = ''.mp4''"
    by (simp_all add: endswith_def lower_def drop_map eval_nat_numeral)
  from d obtain a' b c d' where e: "drop (length f - 4) f = [a', b, c, d']"
    by (auto simp: map_eq_Cons_conv)
  with d have "a' = CHR ''.''" "b = CHR ''m'' \<or> b = CHR ''M''" "c = CHR ''p'' \<or> c = CHR ''P''"
    "d' = CHR ''4''"
    by (simp_all add: lower_char_dot lower_char_4 lower_char_m lower_char_p)
  moreover have "f = take (length f - 4) f @ drop (length f - 4) f" by simp
  ultimately show "\<exists>stem b c. f = stem @ [CHR ''.'', b, c, CHR ''4'']
        \<and> (b = CHR ''m'' \<or> b = CHR ''M'') \<and> (c = CHR ''p'' \<or> c = CHR ''P'')"
    using e by metis
next
  assume "\<exists>stem b c. f = stem @ [CHR ''.'', b, c, CHR ''4'']
        \<and> (b = CHR ''m'' \<or> b = CHR ''M'') \<and> (c = CHR ''p'' \<or> c = CHR ''P'')"
  then show "endswith (lower f) ''.mp4''"
    by (auto simp: endswith_def lower_def lower_char_def)
qed

lemma has_non_dot_iff: "has_non_dot s \<longleftrightarrow> (\<exists>c. c \<in> set s \<and> c \<noteq> CHR ''.'')"
  by (induction s) auto

lemma rfind_last:
  assumes "c \<notin> set t"
  shows "rfind c (s @ c # t) = int (length s)"
proof -
  have "takeWhile (\<lambda>x. x \<noteq> c) (rev t @ c # rev s)
          = rev t @ takeWhile (\<lambda>x. x \<noteq> c) (c # rev s)"
    by (rule takeWhile_append2) (use assms in auto)
  then show ?thesis by (simp add: rfind_def)
qed

lemma rfind_absent: "c \<notin> set s \<Longrightarrow> rfind c s = - 1"
  by (simp add: rfind_def)

lemma splitext_video_name:
  assumes "CHR ''/'' \<notin> set stem"
      and "CHR ''.'' \<notin> set ext" "CHR ''/'' \<notin> set ext"
  shows "splitext (stem @ CHR ''.'' # ext) =
           (if has_non_dot stem then (stem, CHR ''.'' # ext) else (stem @ CHR ''.'' # ext, []))"
proof -
  have "rfind CHR ''.'' (stem @ CHR ''.'' # ext) = int (length stem)"
    using assms(2) by (rule rfind_last)
  moreover have "rfind CHR ''/'' (stem @ CHR ''.'' # ext) = - 1"
    using assms(1,3) by (intro rfind_absent) simp
  ultimately show ?thesis by (simp add: splitext_def)
qed

lemma vid_id_mp4:
  assumes "endswith (lower f) ''.mp4''" "CHR ''/'' \<notin> set f"
  shows "fst (splitext f) =
           (if \<exists>c. c \<in> set (take (length f - 4) f) \<and> c \<noteq> CHR ''.''
            then take (length f - 4) f else f)"
proof -
  from assms(1) obtain stem b c where
    f: "f = stem @ [CHR ''.'', b, c, CHR ''4'']"
    and b: "b = CHR ''m'' \<or> b = CHR ''M''" and c: "c = CHR ''p'' \<or> c = CHR ''P''"
    unfolding endswith_lower_mp4 by blast
  have "splitext (stem @ CHR ''.'' # [b, c, CHR ''4'']) =
           (if has_non_dot stem then (stem, CHR ''.'' # [b, c, CHR ''4''])
            else (stem @ CHR ''.'' # [b, c, CHR ''4''], []))"
    using assms(2) b c unfolding f by (intro splitext_video_name) auto
  then show ?thesis by (auto simp: f has_non_dot_iff)
qed

section \<open>Evaluating the example environments\<close>

lemma ntsc_rate:
  "exc_bind (exc_bind (py_truediv 30000 1001) py_round2) (\<lambda>r. Inr (PFloat r))
     = Inr (PFloat (float_lit (2997 / 100)))"
  by code_simp

lemma py_int_str_examples:
  "py_int_str w ''30000'' = Some 30000" "py_int_str w ''1001'' = Some 1001"
  "py_int_str w ''800000'' = Some 800000" "py_int_str w ''30'' = Some 30"
  "py_int_str w ''0'' = Some 0" "py_int_str w ''x'' = None" "py_int_str w ''N/A'' = None"
  by (simp_all add: py_int_str_def ascii_int_def digit_count_def strip_def is_space_def
        unsigned_literal_def digit_val_def)

lemma compute_fps_ntsc:
  "compute_fps w [''30000'', ''1001''] = Inr (PFloat (float_lit (2997 / 100)))"
  unfolding compute_fps_def using ntsc_rate by (simp add: py_int_str_examples)

lemma get_video_metadata_ok: "get_video_metadata world_ok p = (Inr meta_ok, [])"
  by (simp add: get_video_metadata_def try_body_def world_ok_def json_ok_def meta_ok_def
        read_format_def read_video_def frame_rate_def initial_metadata_def
        compute_fps_ntsc py_int_str_examples)


lemma splitext_clip_1: "splitext ''clip_1.mp4'' = (''clip_1'', ''.mp4'')"
  by code_simp

lemma splitext_CLIP_2: "splitext ''CLIP_2.MP4'' = (''CLIP_2'', ''.MP4'')"
  by code_simp

lemma splitext_dotfile: "splitext ''.mp4'' = (''.mp4'', [])"
  by code_simp

lemma dotfile_selected: "endswith (lower ''.mp4'') ''.mp4''"
  by (simp add: endswith_def lower_def lower_char_def)

lemma videos_selected:
  "endswith (lower ''clip_1.mp4'') ''.mp4''" "endswith (lower ''CLIP_2.MP4'') ''.mp4''"
  "\<not> endswith (lower ''notes.txt'') ''.mp4''"
  by (simp_all add: endswith_def lower_def lower_char_def)


lemma world_ok_fs:
  "fs_node world_ok ''videos'' = Some (Directory [''clip_1.mp4'', ''CLIP_2.MP4'', ''notes.txt''])"
  "open_w world_ok p = None"
  "writerow_error world_ok row = None"
  by (simp_all add: world_ok_def)

lemma run_ok:
  "process_videos world_ok ''videos'' ''out.csv'' =
     \<lparr>raised = None,
      written = Some [header_row, data_row ''clip_1'' meta_ok, data_row ''CLIP_2'' meta_ok],
      logged = [InfoFound 2 ''videos'', InfoCompleted ''out.csv'']\<rparr>"
  by (simp add: process_videos_def os_path_exists_def os_listdir_def world_ok_fs
        videos_selected get_video_metadata_ok splitext_clip_1 splitext_CLIP_2)


lemma run_dotfile:
  "process_videos world_dotfile ''videos'' ''out.csv'' =
     \<lparr>raised = None, written = Some [header_row, data_row ''.mp4'' meta_ok],
      logged = [InfoFound 1 ''videos'', InfoCompleted ''out.csv'']\<rparr>"
proof -
  have "get_video_metadata world_dotfile p = (Inr meta_ok, [])" for p
    by (simp add: get_video_metadata_def try_body_def world_dotfile_def world_ok_def json_ok_def
          meta_ok_def read_format_def read_video_def frame_rate_def initial_metadata_def
          compute_fps_ntsc py_int_str_examples)
  moreover have "fs_node world_dotfile ''videos'' = Some (Directory [''.mp4''])"
    "open_w world_dotfile ''out.csv'' = None"
    "writerow_error world_dotfile row = None" for row
    by (simp_all add: world_dotfile_def world_ok_def)
  ultimately show ?thesis
    by (simp add: process_videos_def os_path_exists_def os_listdir_def dotfile_selected
          splitext_dotfile)
qed

lemma run_bad_name:
  "process_videos world_bad_name ''videos'' ''out.csv'' =
     \<lparr>raised = Some ValueError, written = Some [header_row],
      logged = [InfoFound 1 ''videos'']\<rparr>"
proof -
  have "get_video_metadata world_bad_name p = (Inr meta_ok, [])" for p
    by (simp add: get_video_metadata_def try_body_def world_bad_name_def world_ok_def
          json_ok_def meta_ok_def read_format_def read_video_def frame_rate_def
          initial_metadata_def compute_fps_ntsc py_int_str_examples)
  moreover have "fs_node world_bad_name ''videos'' = Some (Directory [CHR 0xFF # ''.mp4''])"
    "open_w world_bad_name ''out.csv'' = None"
    "writerow_error world_bad_name (data_row [CHR 0xFF] meta_ok) = Some ValueError"
    by (simp_all add: world_bad_name_def world_ok_def data_row_def)
  moreover have "endswith (lower (CHR 0xFF # ''.mp4'')) ''.mp4''"
    by (simp add: endswith_def lower_def lower_char_def)
  moreover have "splitext (CHR 0xFF # ''.mp4'') = ([CHR 0xFF], ''.mp4'')"
    by code_simp
  ultimately show ?thesis
    by (simp add: process_videos_def os_path_exists_def os_listdir_def)
qed

lemma get_video_metadata_no_bitrate:
  "get_video_metadata world_no_bitrate p =
     (Inr \<lparr>duration = PFloat (Fin (25 / 2)), width = PNone, height = PNone, fps = PNone,
           has_audio = PInt 0, bitrate = PNone\<rparr>,
      [ErrorProcessing p ValueError])"
  by (simp add: get_video_metadata_def try_body_def world_no_bitrate_def world_ok_def
        json_no_bitrate_def read_format_def initial_metadata_def handled_def
        py_int_str_examples)

section \<open>The rows of a run\<close>

lemma process_videos_opened:
  assumes "written (process_videos w d out) = Some rows"
  obtains entries lg' where
    "fs_node w d = Some (Directory entries)"
    "open_w w out = None"
    "write_rows w d (filter (\<lambda>f. endswith (lower f) ''.mp4'') entries) [header_row]
       [InfoFound (length (filter (\<lambda>f. endswith (lower f) ''.mp4'') entries)) d]
     = (raised (process_videos w d out), rows, lg')"
  using assms
  by (auto simp: process_videos_def os_path_exists_def os_listdir_def Let_def
           split: option.splits node.splits sum.splits prod.splits if_splits)

lemma process_videos_finished:
  assumes "fs_node w d = Some (Directory entries)"
      and "raised (process_videos w d out) = None"
  obtains rows where "written (process_videos w d out) = Some rows"
  using assms
  by (auto simp: process_videos_def os_path_exists_def os_listdir_def Let_def
           split: option.splits node.splits sum.splits prod.splits if_splits)

lemma rows_ids:
  assumes "list_all2 (\<lambda>f r. \<exists>m lg. get_video_metadata w (os_path_join d f) = (Inr m, lg)
                 \<and> r = data_row (fst (splitext f)) m) files new"
  shows "map hd new = map (\<lambda>f. PStr (fst (splitext f))) files"
  using assms by (induction rule: list_all2_induct) (auto simp: data_row_def)


lemma rows_when_nothing_escapes:
  assumes "fs_node w video_dir = Some (Directory entries)"
      and "raised (process_videos w video_dir output_csv) = None"
  shows "\<exists>data. written (process_videos w video_dir output_csv) = Some (header_row # data)
           \<and> length data = length (filter (\<lambda>f. endswith (lower f) ''.mp4'') entries)"
proof -
  from assms obtain rows where r: "written (process_videos w video_dir output_csv) = Some rows"
    by (rule process_videos_finished)
  then obtain entries' lg' where
    "fs_node w video_dir = Some (Directory entries')"
    "write_rows w video_dir (filter (\<lambda>f. endswith (lower f) ''.mp4'') entries') [header_row]
       [InfoFound (length (filter (\<lambda>f. endswith (lower f) ''.mp4'') entries')) video_dir]
     = (raised (process_videos w video_dir output_csv), rows, lg')"
    by (rule process_videos_opened)
  with assms have
    "write_rows w video_dir (filter (\<lambda>f. endswith (lower f) ''.mp4'') entries) [header_row]
       [InfoFound (length (filter (\<lambda>f. endswith (lower f) ''.mp4'') entries)) video_dir]
     = (None, rows, lg')"
    by simp
  from write_rows_result[OF this] obtain new where
    "rows = [header_row] @ new"
    "list_all2 (\<lambda>f r. \<exists>m lg. get_video_metadata w (os_path_join video_dir f) = (Inr m, lg)
                 \<and> r = data_row (fst (splitext f)) m)
       (filter (\<lambda>f. endswith (lower f) ''.mp4'') entries) new"
    by auto
  with r show ?thesis by (auto dest: list_all2_lengthD)
qed



lemma csv_line_header:
  "csv_line w header_row =
     ''Id,duration,width,height,fps,has_audio,bitrate'' @ [CHR 0x0D, CHR 0x0A]"
  by (simp add: csv_line_def csv_field_def field_text_def quote_minimal_def header_row_def)

text \<open>
  Claim C7 says that exactly the entries whose name ends in \<^verbatim>\<open>.mp4\<close>, in any case, are
  selected, and that the id of a row is the file name minus the extension. The id is
  \<^verbatim>\<open>os.path.splitext(f)[0]\<close>, and \<^verbatim>\<open>splitext\<close> does not take a leading dot for the start
  of an extension: the entry \<^verbatim>\<open>.mp4\<close> is selected and its id is \<^verbatim>\<open>.mp4\<close>, the whole
  name, not the empty string.
\<close>

theorem dotfile_id_counterexample:
  "written (process_videos world_dotfile ''videos'' ''out.csv'')
     = Some [header_row, data_row ''.mp4'' meta_ok]
   \<and> endswith (lower ''.mp4'') ''.mp4''
   \<and> fst (splitext ''.mp4'') \<noteq> take (length ''.mp4'' - 4) ''.mp4''"
  by (simp add: run_dotfile dotfile_selected splitext_dotfile)

text \<open>
  Claim C7 as amended: in a run that no exception ends, over a directory whose entries
  are file names (no \<^verbatim>\<open>/\<close>), the ids of the data rows are, in order, those of the entries
  that end in a dot, \<^verbatim>\<open>m\<close> or \<^verbatim>\<open>M\<close>, \<^verbatim>\<open>p\<close> or \<^verbatim>\<open>P\<close>, and \<^verbatim>\<open>4\<close>; the id of such an
  entry is the name without its last four characters when a character other than a dot
  comes before them, else the whole name. The directory with \<^verbatim>\<open>clip_1.mp4\<close>,
  \<^verbatim>\<open>CLIP_2.MP4\<close> and \<^verbatim>\<open>notes.txt\<close> gives the ids \<^verbatim>\<open>clip_1\<close> and \<^verbatim>\<open>CLIP_2\<close>.
\<close>

theorem selection_and_ids:
  assumes "fs_node w video_dir = Some (Directory entries)"
      and "\<forall>f \<in> set entries. CHR ''/'' \<notin> set f"
      and "raised (process_videos w video_dir output_csv) = None"
  shows "\<exists>data. written (process_videos w video_dir output_csv) = Some (header_row # data)
           \<and> map hd data =
               map (\<lambda>f. PStr (fst (splitext f)))
                 (filter (\<lambda>f. \<exists>stem x y. f = stem @ [CHR ''.'', x, y, CHR ''4'']
                            \<and> (x = CHR ''m'' \<or> x = CHR ''M'') \<and> (y = CHR ''p'' \<or> y = CHR ''P''))
                    entries)
           \<and> (\<forall>f \<in> set entries. endswith (lower f) ''.mp4'' \<longrightarrow>
                 fst (splitext f) =
                   (if \<exists>c. c \<in> set (take (length f - 4) f) \<and> c \<noteq> CHR ''.''
                    then take (length f - 4) f else f))"
proof -
  from assms(1,3) obtain rows where r: "written (process_videos w video_dir output_csv) = Some rows"
    by (rule process_videos_finished)
  then obtain entries' lg' where
    "fs_node w video_dir = Some (Directory entries')"
    "write_rows w video_dir (filter (\<lambda>f. endswith (lower f) ''.mp4'') entries') [header_row]
       [InfoFound (length (filter (\<lambda>f. endswith (lower f) ''.mp4'') entries')) video_dir]
     = (raised (process_videos w video_dir output_csv), rows, lg')"
    by (rule process_videos_opened)
  with assms(1,3) have
    "write_rows w video_dir (filter (\<lambda>f. endswith (lower f) ''.mp4'') entries) [header_row]
       [InfoFound (length (filter (\<lambda>f. endswith (lower f) ''.mp4'') entries)) video_dir]
     = (None, rows, lg')"
    by simp
  from write_rows_result[OF this] obtain new where
    n: "rows = [header_row] @ new"
    and a: "list_all2 (\<lambda>f r. \<exists>m lg. get_video_metadata w (os_path_join video_dir f) = (Inr m, lg)
                 \<and> r = data_row (fst (splitext f)) m)
       (filter (\<lambda>f. endswith (lower f) ''.mp4'') entries) new"
    by auto
  have "map hd new = map (\<lambda>f. PStr (fst (splitext f)))
          (filter (\<lambda>f. endswith (lower f) ''.mp4'') entries)"
    using a by (rule rows_ids)
  then have "map hd new = map (\<lambda>f. PStr (fst (splitext f)))
                 (filter (\<lambda>f. \<exists>stem x y. f = stem @ [CHR ''.'', x, y, CHR ''4'']
                            \<and> (x = CHR ''m'' \<or> x = CHR ''M'') \<and> (y = CHR ''p'' \<or> y = CHR ''P''))
                    entries)"
    by (simp only: endswith_lower_mp4)
  moreover have "\<forall>f \<in> set entries. endswith (lower f) ''.mp4'' \<longrightarrow>
                 fst (splitext f) =
                   (if \<exists>c. c \<in> set (take (length f - 4) f) \<and> c \<noteq> CHR ''.''
                    then take (length f - 4) f else f)"
    using assms(2) by (blast intro: vid_id_mp4)
  ultimately show ?thesis using r n by simp
qed

theorem selection_and_ids_witness:
  "fs_node world_ok ''videos'' = Some (Directory [''clip_1.mp4'', ''CLIP_2.MP4'', ''notes.txt''])
   \<and> CHR ''/'' \<notin> set ''clip_1.mp4'' \<and> CHR ''/'' \<notin> set ''CLIP_2.MP4''
   \<and> CHR ''/'' \<notin> set ''notes.txt''
   \<and> raised (process_videos world_ok ''videos'' ''out.csv'') = None
   \<and> (\<exists>data. written (process_videos world_ok ''videos'' ''out.csv'') = Some (header_row # data)
         \<and> map hd data = [PStr ''clip_1'', PStr ''CLIP_2''])"
  using selection_and_ids [of world_ok "''videos''"
          "[''clip_1.mp4'', ''CLIP_2.MP4'', ''notes.txt'']" "''out.csv''"]
  by (simp add: world_ok_fs run_ok endswith_lower_mp4[symmetric] videos_selected
        splitext_clip_1 splitext_CLIP_2 data_row_def)

text \<open>
  Claim C9: in every run that opens the output file, the first row is the header, written
  as \<^verbatim>\<open>Id,duration,width,height,fps,has_audio,bitrate\<close>; the data rows follow, one for
  each of the first selected entries in order, each the id of its entry followed by
  duration, width, height, fps, has_audio and bitrate of the record that
  \<^verbatim>\<open>get_video_metadata\<close> returned for it.
\<close>

theorem header_and_row_layout:
  assumes "written (process_videos w video_dir output_csv) = Some rows"
  shows "\<exists>entries data.
           fs_node w video_dir = Some (Directory entries)
         \<and> rows = header_row # data
         \<and> csv_line w header_row =
             ''Id,duration,width,height,fps,has_audio,bitrate'' @ [CHR 0x0D, CHR 0x0A]
         \<and> length data \<le> length (filter (\<lambda>f. endswith (lower f) ''.mp4'') entries)
         \<and> (\<forall>i<length data. \<exists>meta lg.
               get_video_metadata w
                 (os_path_join video_dir (filter (\<lambda>f. endswith (lower f) ''.mp4'') entries ! i))
                 = (Inr meta, lg)
               \<and> data ! i =
                   [PStr (fst (splitext (filter (\<lambda>f. endswith (lower f) ''.mp4'') entries ! i))),
                    duration meta, width meta, height meta, fps meta, has_audio meta,
                    bitrate meta])"
proof -
  from assms obtain entries lg' where
    fs: "fs_node w video_dir = Some (Directory entries)"
    and wr: "write_rows w video_dir (filter (\<lambda>f. endswith (lower f) ''.mp4'') entries) [header_row]
       [InfoFound (length (filter (\<lambda>f. endswith (lower f) ''.mp4'') entries)) video_dir]
     = (raised (process_videos w video_dir output_csv), rows, lg')"
    by (rule process_videos_opened)
  define files where "files = filter (\<lambda>f. endswith (lower f) ''.mp4'') entries"
  from write_rows_result[OF wr] obtain k data where
    k: "k \<le> length files"
    and r: "rows = [header_row] @ data"
    and a: "list_all2 (\<lambda>f r. \<exists>m lg. get_video_metadata w (os_path_join video_dir f) = (Inr m, lg)
                 \<and> r = data_row (fst (splitext f)) m) (take k files) data"
    unfolding files_def by blast
  from a k have len: "length data = k" by (auto dest: list_all2_lengthD)
  have "\<exists>meta lg. get_video_metadata w (os_path_join video_dir (files ! i)) = (Inr meta, lg)
           \<and> data ! i = data_row (fst (splitext (files ! i))) meta" if "i < length data" for i
  proof -
    from that len have "i < length (take k files)" using k by simp
    from list_all2_nthD[OF a this] that len show ?thesis by simp
  qed
  with fs r k len show ?thesis
    unfolding files_def data_row_def by (auto simp: csv_line_header)
qed

theorem header_and_row_layout_witness:
  "written (process_videos world_ok ''videos'' ''out.csv'')
     = Some [header_row, data_row ''clip_1'' meta_ok, data_row ''CLIP_2'' meta_ok]
   \<and> (\<exists>entries data.
           fs_node world_ok ''videos'' = Some (Directory entries)
         \<and> [header_row, data_row ''clip_1'' meta_ok, data_row ''CLIP_2'' meta_ok] = header_row # data
         \<and> length data \<le> length (filter (\<lambda>f. endswith (lower f) ''.mp4'') entries))"
proof -
  have h: "written (process_videos world_ok ''videos'' ''out.csv'')
     = Some [header_row, data_row ''clip_1'' meta_ok, data_row ''CLIP_2'' meta_ok]"
    by (simp add: run_ok)
  from header_and_row_layout [OF h] h show ?thesis by blast
qed



section \<open>The audio flag\<close>

lemma next_stream_Some:
  "next_stream t ss = Inr (Some s) \<Longrightarrow>
     \<exists>kv. s = JObj kv \<and> JObj kv \<in> set ss \<and> map_of kv ''codec_type'' = Some (JStr t)"
proof (induction ss)
  case Nil
  then show ?case by simp
next
  case (Cons x ss)
  then show ?case
    by (cases x) (auto split: option.splits if_splits)
qed

lemma next_stream_None:
  "next_stream t ss = Inr None \<Longrightarrow>
     \<not> (\<exists>kv. JObj kv \<in> set ss \<and> map_of kv ''codec_type'' = Some (JStr t))"
proof (induction ss)
  case Nil
  then show ?case by simp
next
  case (Cons x ss)
  then show ?case
    by (cases x) (auto split: option.splits if_splits)
qed

lemma get_video_metadata_returns_quietly:
  "get_video_metadata w p = (Inr meta, []) \<longleftrightarrow> try_body w p initial_metadata = (meta, None)"
  by (cases "try_body w p initial_metadata")
     (auto simp: get_video_metadata_def split: option.splits)

lemma get_video_metadata_logs:
  assumes "get_video_metadata w p = (Inr meta, lg)" "lg \<noteq> []"
  shows "has_audio meta = PInt 0"
proof -
  obtain m x where b: "try_body w p initial_metadata = (m, x)"
    by (cases "try_body w p initial_metadata")
  with assms obtain e where "x = Some e" "meta = m"
    by (auto simp: get_video_metadata_def split: option.splits if_splits)
  with b have "has_audio meta = has_audio initial_metadata"
    by (simp add: try_body_raises_has_audio)
  then show ?thesis by (simp add: initial_metadata_def)
qed

text \<open>
  Claim C5 says that has_audio is 1 exactly when the stream list of the probe result has
  an audio entry. The flag is assigned by the last statement of the \<^verbatim>\<open>try\<close> block; an
  exception caught before it leaves the initial 0. With a bit rate that is not a number
  the record comes back with has_audio 0 although the stream list has an audio entry.
\<close>

theorem has_audio_counterexample:
  "get_video_metadata world_no_bitrate ''videos/clip_1.mp4'' =
     (Inr \<lparr>duration = PFloat (Fin (25 / 2)), width = PNone, height = PNone, fps = PNone,
           has_audio = PInt 0, bitrate = PNone\<rparr>,
      [ErrorProcessing ''videos/clip_1.mp4'' ValueError])
   \<and> json_loads world_no_bitrate ''{}'' = Inr json_no_bitrate
   \<and> dict_get json_no_bitrate ''streams'' (JArr [])
       = Inr (JArr [JObj [(''codec_type'', JStr ''audio'')]])"
proof (intro conjI)
  show "json_loads world_no_bitrate ''{}'' = Inr json_no_bitrate"
    by (simp add: world_no_bitrate_def)
  show "dict_get json_no_bitrate ''streams'' (JArr [])
       = Inr (JArr [JObj [(''codec_type'', JStr ''audio'')]])"
    by (simp add: json_no_bitrate_def)
qed (rule get_video_metadata_no_bitrate)

text \<open>
  Claim C5 as amended: whenever \<^verbatim>\<open>get_video_metadata\<close> returns, has_audio is 0 or 1, and
  it is 1 exactly when no error was logged (the \<^verbatim>\<open>try\<close> block ran to its end) and the
  stream list of the probe result has an entry whose \<^verbatim>\<open>codec_type\<close> is \<^verbatim>\<open>audio\<close>.
\<close>

theorem has_audio_value:
  assumes "get_video_metadata w video_path = (Inr meta, lg)"
  shows "(has_audio meta = PInt 0 \<or> has_audio meta = PInt 1)
       \<and> (has_audio meta = PInt 1 \<longleftrightarrow>
            lg = [] \<and>
            (\<exists>out info streams ss kv.
               check_output w (ffprobe_cmd video_path) = Inr out
             \<and> json_loads w out = Inr info
             \<and> dict_get info ''streams'' (JArr []) = Inr streams
             \<and> py_iter streams = Inr ss
             \<and> JObj kv \<in> set ss \<and> map_of kv ''codec_type'' = Some (JStr ''audio'')))"
proof (cases "lg = []")
  case False
  with assms have "has_audio meta = PInt 0" by (rule get_video_metadata_logs)
  with False show ?thesis by simp
next
  case True
  with assms have "try_body w video_path initial_metadata = (meta, None)"
    by (simp add: get_video_metadata_returns_quietly)
  then obtain out info streams ss found_video audio_stream m1 m2 where
    co: "check_output w (ffprobe_cmd video_path) = Inr out"
    and jl: "json_loads w out = Inr info"
    and st: "dict_get info ''streams'' (JArr []) = Inr streams"
    and it: "py_iter streams = Inr ss"
    and au: "next_stream ''audio'' ss = Inr audio_stream"
    and me: "meta = m2\<lparr>has_audio := PInt (if (case audio_stream of None \<Rightarrow> False | Some s \<Rightarrow> py_truthy s)
                                   then 1 else 0)\<rparr>"
    by (rule try_body_returns)
  show ?thesis
  proof (cases audio_stream)
    case None
    with au have "\<not> (\<exists>kv. JObj kv \<in> set ss \<and> map_of kv ''codec_type'' = Some (JStr ''audio''))"
      by (simp add: next_stream_None)
    moreover from None me have "has_audio meta = PInt 0" by simp
    ultimately show ?thesis using co jl st it by auto
  next
    case (Some s)
    with au obtain kv where
      kv: "s = JObj kv" "JObj kv \<in> set ss" "map_of kv ''codec_type'' = Some (JStr ''audio'')"
      by (auto dest: next_stream_Some)
    then have "kv \<noteq> []" by auto
    with Some kv me have "has_audio meta = PInt 1" by simp
    with True co jl st it kv show ?thesis by auto
  qed
qed

theorem has_audio_value_witness:
  "get_video_metadata world_ok ''videos/clip_1.mp4'' = (Inr meta_ok, [])
   \<and> has_audio meta_ok = PInt 1
   \<and> (\<exists>out info streams ss kv.
               check_output world_ok (ffprobe_cmd ''videos/clip_1.mp4'') = Inr out
             \<and> json_loads world_ok out = Inr info
             \<and> dict_get info ''streams'' (JArr []) = Inr streams
             \<and> py_iter streams = Inr ss
             \<and> JObj kv \<in> set ss \<and> map_of kv ''codec_type'' = Some (JStr ''audio''))"
  using has_audio_value [OF get_video_metadata_ok [of "''videos/clip_1.mp4''"]]
  by (simp add: get_video_metadata_ok meta_ok_def)

section \<open>The frame rate\<close>

lemma handled_examples: "handled ValueError" "handled ZeroDivisionError"
  by (simp_all add: handled_def)

lemma py_round2_not_zero_division: "py_round2 q \<noteq> Inl ZeroDivisionError"
  by (cases q) (auto simp: py_round2_def Let_def)

lemma py_truediv_not_zero_division: "d \<noteq> 0 \<Longrightarrow> py_truediv n d \<noteq> Inl ZeroDivisionError"
  by (auto simp: py_truediv_def Let_def)

lemma compute_fps_not_zero_division: "compute_fps w parts \<noteq> Inl ZeroDivisionError"
proof -
  have "exc_bind (exc_bind (py_truediv n d) py_round2) (\<lambda>r. Inr (PFloat r))
          \<noteq> Inl ZeroDivisionError" if "d \<noteq> 0" for n d
  proof (cases "py_truediv n d")
    case (Inl e)
    with py_truediv_not_zero_division[OF that, of n] show ?thesis by simp
  next
    case (Inr q)
    with py_round2_not_zero_division[of q] show ?thesis
      by (cases "py_round2 q") simp_all
  qed
  then show ?thesis
    by (auto simp: compute_fps_def split: option.splits)
qed

lemma split_on_examples:
  "split_on CHR ''/'' ''30/0'' = [''30'', ''0'']"
  "split_on CHR ''/'' ''30/x'' = [''30'', ''x'']"
  "split_on CHR ''/'' ''30000/1001'' = [''30000'', ''1001'']"
  by simp_all

lemma read_format_fps: "read_format w info m = (m', x) \<Longrightarrow> fps m' = fps m"
  by (cases "dict_get info ''format'' (JObj [])")
     (auto simp: read_format_def assign_def and_then_def exc_bind_def split: sum.splits)

lemma get_video_metadata_bad_rate:
  "get_video_metadata world_bad_rate p =
     (Inr \<lparr>duration = PFloat (Fin (25 / 2)), width = PInt 1920, height = PInt 1080,
           fps = PNone, has_audio = PInt 0, bitrate = PInt 800000\<rparr>,
      [ErrorProcessing p ValueError])"
  by (simp add: get_video_metadata_def try_body_def world_bad_rate_def world_ok_def
        json_bad_rate_def read_format_def read_video_def frame_rate_def compute_fps_def
        initial_metadata_def handled_def py_int_str_examples)

lemma ntsc_round:
  "exc_bind (py_truediv 30000 1001) py_round2 = Inr (float_lit (2997 / 100))"
  using ntsc_rate
  by (cases "exc_bind (py_truediv 30000 1001) py_round2") simp_all

text \<open>
  Claim C3 says that for every frame-rate string other than two parts with a nonzero
  denominator, a malformed one included, fps is 0 and no error propagates. For the rate
  \<^verbatim>\<open>30/x\<close> the test \<^verbatim>\<open>int(fps_parts[1]) != 0\<close> raises \<open>ValueError\<close>; the handler
  catches it, so nothing propagates, but the assignment of fps is never reached: the
  field stays absent, and has_audio stays 0.
\<close>

theorem bad_rate_counterexample:
  "get_video_metadata world_bad_rate ''videos/clip_1.mp4'' =
     (Inr \<lparr>duration = PFloat (Fin (25 / 2)), width = PInt 1920, height = PInt 1080,
           fps = PNone, has_audio = PInt 0, bitrate = PInt 800000\<rparr>,
      [ErrorProcessing ''videos/clip_1.mp4'' ValueError])
   \<and> frame_rate world_bad_rate
         (JObj [(''codec_type'', JStr ''video''), (''width'', JInt 1920),
                (''height'', JInt 1080), (''r_frame_rate'', JStr ''30/x'')])
       = Inl ValueError"
proof (intro conjI)
  show "frame_rate world_bad_rate
         (JObj [(''codec_type'', JStr ''video''), (''width'', JInt 1920),
                (''height'', JInt 1080), (''r_frame_rate'', JStr ''30/x'')])
       = Inl ValueError"
    by (simp add: frame_rate_def compute_fps_def py_int_str_examples)
qed (rule get_video_metadata_bad_rate)

text \<open>
  Claim C3 as amended. Take a run of \<^verbatim>\<open>get_video_metadata\<close> in which nothing raises
  before the frame rate is read: the probe result parses to a dict, the format section is
  read, the stream list has a first video entry and the search for an audio entry ends,
  width and height convert; and let \<open>s\<close> be the frame-rate string of the video entry, split
  on \<^verbatim>\<open>/\<close>, with \<^verbatim>\<open>int\<close> as the interpreter reads it. Then:
  with two parts that \<^verbatim>\<open>int\<close> accepts and a nonzero denominator, the record is returned
  with fps \<^verbatim>\<open>round(numerator / denominator, 2)\<close>, where that float exists, and nothing is
  logged; with another number of parts, or a denominator that \<^verbatim>\<open>int\<close> reads as zero,
  the record is returned with fps 0 and nothing is logged; with two parts of which
  \<^verbatim>\<open>int\<close> refuses the denominator, or for a nonzero denominator the numerator, the
  \<open>ValueError\<close> is caught and logged, and the record is returned with fps absent and
  has_audio 0. No division by zero occurs, and neither \<open>ValueError\<close> nor
  \<open>ZeroDivisionError\<close> leaves \<^verbatim>\<open>get_video_metadata\<close>.
\<close>

theorem frame_rate_cases:
  assumes "check_output w (ffprobe_cmd video_path) = Inr out"
      and "json_loads w out = Inr (JObj info)"
      and "read_format w (JObj info) initial_metadata = (m1, None)"
      and "map_of info ''streams'' = Some (JArr streams)"
      and "next_stream ''video'' streams = Inr (Some (JObj video_stream))"
      and "next_stream ''audio'' streams = Inr audio_stream"
      and "exc_bind (dict_get (JObj video_stream) ''width'' (JInt 0)) (py_int w) = Inr wd"
      and "exc_bind (dict_get (JObj video_stream) ''height'' (JInt 0)) (py_int w) = Inr ht"
      and "map_of video_stream ''r_frame_rate'' = Some (JStr s)"
  shows "(\<forall>a b n d q r.
            split_on CHR ''/'' s = [a, b] \<and> py_int_str w a = Some n \<and> py_int_str w b = Some d
            \<and> d \<noteq> 0 \<and> py_truediv n d = Inr q \<and> py_round2 q = Inr r
            \<longrightarrow> (\<exists>meta. get_video_metadata w video_path = (Inr meta, [])
                   \<and> fps meta = PFloat r))
       \<and> (length (split_on CHR ''/'' s) \<noteq> 2
            \<or> (\<exists>a b. split_on CHR ''/'' s = [a, b] \<and> py_int_str w b = Some 0)
            \<longrightarrow> (\<exists>meta. get_video_metadata w video_path = (Inr meta, [])
                   \<and> fps meta = PInt 0))
       \<and> ((\<exists>a b. split_on CHR ''/'' s = [a, b]
                 \<and> (py_int_str w b = None
                      \<or> py_int_str w a = None \<and> py_int_str w b \<noteq> Some 0))
            \<longrightarrow> (\<exists>meta. get_video_metadata w video_path
                            = (Inr meta, [ErrorProcessing video_path ValueError])
                   \<and> fps meta = PNone \<and> has_audio meta = PInt 0))
       \<and> frame_rate w (JObj video_stream) \<noteq> Inl ZeroDivisionError
       \<and> fst (get_video_metadata w video_path) \<noteq> Inl ValueError
       \<and> fst (get_video_metadata w video_path) \<noteq> Inl ZeroDivisionError"
proof -
  have ne: "video_stream \<noteq> []"
    using assms(9) by auto
  have fr: "frame_rate w (JObj video_stream) = compute_fps w (split_on CHR ''/'' s)"
    using assms(9) by (simp add: frame_rate_def)
  have tb: "try_body w video_path initial_metadata =
          and_then
            (assign (frame_rate w (JObj video_stream)) (\<lambda>v m. m\<lparr>fps := v\<rparr>)
               (m1\<lparr>width := PInt wd, height := PInt ht\<rparr>))
            (\<lambda>m. (m\<lparr>has_audio :=
                        PInt (if (case audio_stream of None \<Rightarrow> False | Some s \<Rightarrow> py_truthy s)
                              then 1 else 0)\<rparr>, None))"
    using assms(1-8) ne by (simp add: try_body_def read_video_def)
  have m1: "fps m1 = PNone" "has_audio m1 = PInt 0"
    using read_format_fps[OF assms(3)] read_format_keeps[OF assms(3)]
    by (simp_all add: initial_metadata_def)
  have val: "\<exists>meta. get_video_metadata w video_path = (Inr meta, []) \<and> fps meta = v"
    if "frame_rate w (JObj video_stream) = Inr v" for v
    using that by (simp add: get_video_metadata_def tb)
  have err: "\<exists>meta. get_video_metadata w video_path
                        = (Inr meta, [ErrorProcessing video_path ValueError])
               \<and> fps meta = PNone \<and> has_audio meta = PInt 0"
    if "frame_rate w (JObj video_stream) = Inl ValueError"
    using that m1 by (simp add: get_video_metadata_def tb handled_def)
  have 1: "\<forall>a b n d q r.
            split_on CHR ''/'' s = [a, b] \<and> py_int_str w a = Some n \<and> py_int_str w b = Some d
            \<and> d \<noteq> 0 \<and> py_truediv n d = Inr q \<and> py_round2 q = Inr r
            \<longrightarrow> (\<exists>meta. get_video_metadata w video_path = (Inr meta, [])
                   \<and> fps meta = PFloat r)"
  proof (intro allI impI)
    fix a b n d q r
    assume "split_on CHR ''/'' s = [a, b] \<and> py_int_str w a = Some n \<and> py_int_str w b = Some d
            \<and> d \<noteq> 0 \<and> py_truediv n d = Inr q \<and> py_round2 q = Inr r"
    then have "frame_rate w (JObj video_stream) = Inr (PFloat r)"
      by (simp add: fr compute_fps_def)
    then show "\<exists>meta. get_video_metadata w video_path = (Inr meta, []) \<and> fps meta = PFloat r"
      by (rule val)
  qed
  have 2: "length (split_on CHR ''/'' s) \<noteq> 2
            \<or> (\<exists>a b. split_on CHR ''/'' s = [a, b] \<and> py_int_str w b = Some 0)
            \<longrightarrow> (\<exists>meta. get_video_metadata w video_path = (Inr meta, [])
                   \<and> fps meta = PInt 0)"
  proof
    assume "length (split_on CHR ''/'' s) \<noteq> 2
            \<or> (\<exists>a b. split_on CHR ''/'' s = [a, b] \<and> py_int_str w b = Some 0)"
    then have "frame_rate w (JObj video_stream) = Inr (PInt 0)"
      by (auto simp: fr compute_fps_def)
    then show "\<exists>meta. get_video_metadata w video_path = (Inr meta, []) \<and> fps meta = PInt 0"
      by (rule val)
  qed
  have 3: "(\<exists>a b. split_on CHR ''/'' s = [a, b]
                 \<and> (py_int_str w b = None
                      \<or> py_int_str w a = None \<and> py_int_str w b \<noteq> Some 0))
            \<longrightarrow> (\<exists>meta. get_video_metadata w video_path
                            = (Inr meta, [ErrorProcessing video_path ValueError])
                   \<and> fps meta = PNone \<and> has_audio meta = PInt 0)"
  proof
    assume "\<exists>a b. split_on CHR ''/'' s = [a, b]
                 \<and> (py_int_str w b = None
                      \<or> py_int_str w a = None \<and> py_int_str w b \<noteq> Some 0)"
    then have "frame_rate w (JObj video_stream) = Inl ValueError"
      by (auto simp: fr compute_fps_def split: option.splits)
    then show "\<exists>meta. get_video_metadata w video_path
                            = (Inr meta, [ErrorProcessing video_path ValueError])
                   \<and> fps meta = PNone \<and> has_audio meta = PInt 0"
      by (rule err)
  qed
  have 4: "frame_rate w (JObj video_stream) \<noteq> Inl ZeroDivisionError"
    by (simp add: fr compute_fps_not_zero_division)
  have 5: "fst (get_video_metadata w video_path) \<noteq> Inl ValueError"
    by (simp add: get_video_metadata_escapes handled_examples)
  have 6: "fst (get_video_metadata w video_path) \<noteq> Inl ZeroDivisionError"
    by (simp add: get_video_metadata_escapes handled_examples)
  from 1 2 3 4 5 6 show ?thesis by (intro conjI)
qed

theorem frame_rate_cases_witness:
  "check_output world_zero_rate (ffprobe_cmd ''videos/clip_1.mp4'') = Inr ''{}''
   \<and> json_loads world_zero_rate ''{}'' = Inr json_zero_rate
   \<and> split_on CHR ''/'' ''30/0'' = [''30'', ''0'']
   \<and> py_int_str world_zero_rate ''0'' = Some 0
   \<and> (\<exists>meta. get_video_metadata world_zero_rate ''videos/clip_1.mp4'' = (Inr meta, [])
         \<and> fps meta = PInt 0)"
proof -
  let ?video = "[(''codec_type'', JStr ''video''), (''width'', JInt 1920),
                 (''height'', JInt 1080), (''r_frame_rate'', JStr ''30/0'')]"
  let ?audio = "JObj [(''codec_type'', JStr ''audio'')]"
  let ?info = "[(''format'', JObj [(''duration'', JStr ''12.5''),
                                   (''bit_rate'', JStr ''800000'')]),
                (''streams'', JArr [JObj ?video, ?audio])]"
  have 1: "check_output world_zero_rate (ffprobe_cmd ''videos/clip_1.mp4'') = Inr ''{}''"
    by (simp add: world_zero_rate_def world_ok_def)
  have 2: "json_loads world_zero_rate ''{}'' = Inr (JObj ?info)"
    by (simp add: world_zero_rate_def json_zero_rate_def)
  have 3: "read_format world_zero_rate (JObj ?info) initial_metadata
             = (initial_metadata\<lparr>duration := PFloat (Fin (25 / 2)), bitrate := PInt 800000\<rparr>,
                None)"
    by (simp add: read_format_def world_zero_rate_def world_ok_def py_int_str_examples)
  have 4: "map_of ?info ''streams'' = Some (JArr [JObj ?video, ?audio])"
    by simp
  have 5: "next_stream ''video'' [JObj ?video, ?audio] = Inr (Some (JObj ?video))"
    by simp
  have 6: "next_stream ''audio'' [JObj ?video, ?audio] = Inr (Some ?audio)"
    by simp
  have 7: "exc_bind (dict_get (JObj ?video) ''width'' (JInt 0)) (py_int world_zero_rate)
             = Inr 1920"
    by simp
  have 8: "exc_bind (dict_get (JObj ?video) ''height'' (JInt 0)) (py_int world_zero_rate)
             = Inr 1080"
    by simp
  have 9: "map_of ?video ''r_frame_rate'' = Some (JStr ''30/0'')"
    by simp
  have s: "split_on CHR ''/'' ''30/0'' = [''30'', ''0'']"
    by simp
  have z: "py_int_str world_zero_rate ''0'' = Some 0"
    by (rule py_int_str_examples)
  from s z have c: "length (split_on CHR ''/'' ''30/0'') \<noteq> 2
            \<or> (\<exists>a b. split_on CHR ''/'' ''30/0'' = [a, b]
                  \<and> py_int_str world_zero_rate b = Some 0)"
    by simp
  note t = conjunct1 [OF conjunct2 [OF frame_rate_cases [OF 1 2 3 4 5 6 7 8 9]]]
  from t [rule_format, OF c]
  have "\<exists>meta. get_video_metadata world_zero_rate ''videos/clip_1.mp4'' = (Inr meta, [])
         \<and> fps meta = PInt 0" .
  with 1 2 s z show ?thesis
    by (simp add: json_zero_rate_def)
qed


text \<open>
  Claim C4: when the probe result parses, its first video stream reports the rate
  \<^verbatim>\<open>30000/1001\<close>, and the extraction returns without an error, the fps field is
  \<^verbatim>\<open>round(30000 / 1001, 2)\<close>, which is the float \<^verbatim>\<open>29.97\<close>.
\<close>

theorem ntsc_frame_rate:
  assumes "check_output w (ffprobe_cmd video_path) = Inr out"
      and "json_loads w out = Inr (JObj info)"
      and "map_of info ''streams'' = Some (JArr streams)"
      and "next_stream ''video'' streams = Inr (Some (JObj video_stream))"
      and "map_of video_stream ''r_frame_rate'' = Some (JStr ''30000/1001'')"
      and "get_video_metadata w video_path = (Inr meta, [])"
  shows "fps meta = PFloat (float_lit (2997 / 100))
       \<and> exc_bind (py_truediv 30000 1001) py_round2 = Inr (float_lit (2997 / 100))"
proof -
  from assms(6) have "try_body w video_path initial_metadata = (meta, None)"
    by (simp add: get_video_metadata_returns_quietly)
  then obtain out' info' streams' ss found_video audio_stream m1 m2 where
    "check_output w (ffprobe_cmd video_path) = Inr out'"
    "json_loads w out' = Inr info'"
    "dict_get info' ''streams'' (JArr []) = Inr streams'"
    "py_iter streams' = Inr ss"
    "next_stream ''video'' ss = Inr found_video"
    and rv: "(if py_truthy (case found_video of None \<Rightarrow> JObj [] | Some s \<Rightarrow> s)
      then read_video w (case found_video of None \<Rightarrow> JObj [] | Some s \<Rightarrow> s) m1
      else (m1, None)) = (m2, None)"
    and me: "meta = m2\<lparr>has_audio := PInt (if (case audio_stream of None \<Rightarrow> False | Some s \<Rightarrow> py_truthy s)
                                   then 1 else 0)\<rparr>"
    by (rule try_body_returns)
  with assms(1-4) have "found_video = Some (JObj video_stream)" by auto
  moreover from assms(5) have "video_stream \<noteq> []" by auto
  ultimately have "read_video w (JObj video_stream) m1 = (m2, None)" using rv by simp
  then have "frame_rate w (JObj video_stream) = Inr (fps m2)" by (rule read_video_fps)
  moreover have "frame_rate w (JObj video_stream) = Inr (PFloat (float_lit (2997 / 100)))"
    using assms(5) by (simp add: frame_rate_def compute_fps_ntsc)
  ultimately have "fps m2 = PFloat (float_lit (2997 / 100))" by simp
  with me show ?thesis by (simp add: ntsc_round)
qed

theorem ntsc_frame_rate_witness:
  "check_output world_ok (ffprobe_cmd ''videos/clip_1.mp4'') = Inr ''{}''
   \<and> json_loads world_ok ''{}'' = Inr json_ok
   \<and> get_video_metadata world_ok ''videos/clip_1.mp4'' = (Inr meta_ok, [])
   \<and> fps meta_ok = PFloat (float_lit (2997 / 100))"
proof -
  have 1: "check_output world_ok (ffprobe_cmd ''videos/clip_1.mp4'') = Inr ''{}''"
    by (simp add: world_ok_def)
  have 2: "json_loads world_ok ''{}'' = Inr (JObj
     [(''format'', JObj [(''duration'', JStr ''12.5''), (''bit_rate'', JStr ''800000'')]),
      (''streams'', JArr
         [JObj [(''codec_type'', JStr ''video''), (''width'', JInt 1920),
                (''height'', JInt 1080), (''r_frame_rate'', JStr ''30000/1001'')],
          JObj [(''codec_type'', JStr ''audio'')]])])"
    by (simp add: world_ok_def json_ok_def)
  have 6: "get_video_metadata world_ok ''videos/clip_1.mp4'' = (Inr meta_ok, [])"
    by (rule get_video_metadata_ok)
  have 3: "map_of
     [(''format'', JObj [(''duration'', JStr ''12.5''), (''bit_rate'', JStr ''800000'')]),
      (''streams'', JArr
         [JObj [(''codec_type'', JStr ''video''), (''width'', JInt 1920),
                (''height'', JInt 1080), (''r_frame_rate'', JStr ''30000/1001'')],
          JObj [(''codec_type'', JStr ''audio'')]])] ''streams''
     = Some (JArr
         [JObj [(''codec_type'', JStr ''video''), (''width'', JInt 1920),
                (''height'', JInt 1080), (''r_frame_rate'', JStr ''30000/1001'')],
          JObj [(''codec_type'', JStr ''audio'')]])"
    by simp
  have 4: "next_stream ''video''
         [JObj [(''codec_type'', JStr ''video''), (''width'', JInt 1920),
                (''height'', JInt 1080), (''r_frame_rate'', JStr ''30000/1001'')],
          JObj [(''codec_type'', JStr ''audio'')]]
     = Inr (Some (JObj [(''codec_type'', JStr ''video''), (''width'', JInt 1920),
                (''height'', JInt 1080), (''r_frame_rate'', JStr ''30000/1001'')]))"
    by simp
  have 5: "map_of [(''codec_type'', JStr ''video''), (''width'', JInt 1920),
                (''height'', JInt 1080), (''r_frame_rate'', JStr ''30000/1001'')]
             ''r_frame_rate'' = Some (JStr ''30000/1001'')"
    by simp
  have "fps meta_ok = PFloat (float_lit (2997 / 100))"
    by (rule conjunct1 [OF ntsc_frame_rate [OF 1 2 3 4 5 6]])
  with 1 2 6 show ?thesis by (simp add: json_ok_def)
qed

end
